theory Spec2Isabelle
  imports Main
begin

section \<open>In-app navigation and configuration loading of \<open>react/features/app/actions.js\<close>\<close>

text \<open>
  The module navigates to a location: it announces the load, downloads the deployment's
  \<open>config.js\<close>, caches the document in \<open>window.localStorage\<close> (or falls back to the
  cached one when the download fails), records the location, merges the document with
  the user's profile, commits the result and finally commits the room.

  JavaScript values are untyped, so the model has a type of JavaScript values with the
  language's truthiness and strict equality. A promise chain runs to completion in one
  piece (the event loop is single-threaded and this chain is the only one modelled), so
  a settled promise is a value and each function passes the mutable world (the redux
  action log, the list of URLs requested, the persistent store) explicitly.
  What the module imports and does not define is a field of the environment record:
  \<open>loadConfig\<close>, \<open>getProfile\<close>, \<open>setConfigFromURLParams\<close>, \<open>parseURIString\<close>, the
  location's \<open>toString\<close>, and the host's \<open>JSON\<close> and \<open>localStorage\<close> behaviour.

  The functions keep their names without the leading underscore; \<open>_loadConfig\<close> is
  \<open>loadConfig_private\<close>, since \<open>loadConfig\<close> is the imported function it calls.
\<close>

subsection \<open>JavaScript values\<close>

text \<open>
  An object carries the identity it was allocated with and the list of its own
  enumerable string-keyed properties in insertion order. Numbers are integers or NaN:
  the module does no arithmetic, only zero-ness decides truthiness.
\<close>

datatype jsval =
    JUndefined
  | JNull
  | JBoolean bool
  | JNumber int
  | JNaN
  | JString string
  | JObject nat "(string \<times> jsval) list"

type_synonym props = "(string \<times> jsval) list"

text \<open>\<open>ToBoolean\<close>: what \<open>if (v)\<close>, \<open>!v\<close>, \<open>a && b\<close> and \<open>a || b\<close> test.\<close>

fun truthy :: "jsval \<Rightarrow> bool" where
  "truthy JUndefined = False"
| "truthy JNull = False"
| "truthy (JBoolean b) = b"
| "truthy (JNumber n) = (n \<noteq> 0)"
| "truthy JNaN = False"
| "truthy (JString s) = (s \<noteq> [])"
| "truthy (JObject i ps) = True"

text \<open>\<open>a === b\<close>: primitives by value (NaN equals nothing), objects by identity.\<close>

fun strict_eq :: "jsval \<Rightarrow> jsval \<Rightarrow> bool" where
  "strict_eq JUndefined JUndefined = True"
| "strict_eq JNull JNull = True"
| "strict_eq (JBoolean a) (JBoolean b) = (a = b)"
| "strict_eq (JNumber a) (JNumber b) = (a = b)"
| "strict_eq (JString a) (JString b) = (a = b)"
| "strict_eq (JObject i ps) (JObject j qs) = (i = j)"
| "strict_eq a b = False"

text \<open>
  A property of a location is a string or \<open>undefined\<close>. \<open>truthyStr\<close> is the truthiness
  of such a property: defined and not empty.
\<close>

fun truthyStr :: "string option \<Rightarrow> bool" where
  "truthyStr None = False"
| "truthyStr (Some s) = (s \<noteq> [])"

text \<open>A template literal renders \<open>undefined\<close> as the text \<open>undefined\<close>.\<close>

fun template :: "string option \<Rightarrow> string" where
  "template None = ''undefined''"
| "template (Some s) = s"

subsection \<open>Object spread\<close>

text \<open>
  \<open>{ ...a, ...b }\<close> copies the own enumerable properties of \<open>a\<close>, then those of \<open>b\<close>,
  into a fresh object: a key already there keeps its place and takes the new value, a
  new key goes to the end. A string spreads as its characters under their indices;
  the other primitives have no own enumerable properties.
\<close>

fun putProperty :: "string \<Rightarrow> jsval \<Rightarrow> props \<Rightarrow> props" where
  "putProperty k v [] = [(k, v)]"
| "putProperty k v ((k', v') # ps) =
     (if k' = k then (k, v) # ps else (k', v') # putProperty k v ps)"

definition copyDataProperties :: "props \<Rightarrow> props \<Rightarrow> props" where
  "copyDataProperties target source = fold (\<lambda>(k, v). putProperty k v) source target"

fun decimal :: "nat \<Rightarrow> string" where
  "decimal n =
     (if n < 10 then [char_of (48 + n)] else decimal (n div 10) @ [char_of (48 + n mod 10)])"

fun indexed :: "nat \<Rightarrow> string \<Rightarrow> props" where
  "indexed i [] = []"
| "indexed i (c # cs) = (decimal i, JString [c]) # indexed (Suc i) cs"

fun ownEnumerable :: "jsval \<Rightarrow> props" where
  "ownEnumerable (JObject i ps) = ps"
| "ownEnumerable (JString s) = indexed 0 s"
| "ownEnumerable v = []"

subsection \<open>Locations, actions, the world\<close>

text \<open>
  The location object that \<open>parseURIString\<close> produces. Every property may be
  \<open>undefined\<close>.
\<close>

record location =
  contextRoot :: "string option"
  host :: "string option"
  hostname :: "string option"
  port :: "string option"
  protocol :: "string option"
  room :: "string option"

text \<open>The redux actions the module dispatches, with their payloads.\<close>

datatype action =
    ConfigWillLoad location
  | SetLocationURL string
  | LoadConfigError jsval location
  | SetConfig jsval
  | SetRoom "string option"

text \<open>
  The world the module changes: the actions dispatched so far (oldest first), the URLs
  handed to \<open>loadConfig\<close>, the contents of \<open>window.localStorage\<close>, and the identity the
  next allocated object gets.
\<close>

record world =
  dispatched :: "action list"
  requested :: "string list"
  localStorage :: "string \<rightharpoonup> string"
  nextObject :: nat

text \<open>A settled promise, and the completion of a call that may throw a \<open>TypeError\<close>.\<close>

datatype 'a promise = Fulfilled 'a | Rejected jsval

datatype 'a completion = Returns 'a | ThrowsTypeError

text \<open>
  \<open>JSON.stringify\<close> throws, returns \<open>undefined\<close> (for \<open>undefined\<close> and for functions)
  or returns a text.
\<close>

datatype stringified = StringifyThrows | StringifyUndefined | StringifyText string

text \<open>
  The environment: what the module reads and calls but does not define.
  \<^item> \<open>APP_defined\<close>: \<open>typeof APP !== 'undefined'\<close>, the full web application.
  \<^item> \<open>window_config\<close>: the global \<open>window.config\<close>.
  \<^item> \<open>loadConfig\<close>: the promise \<open>loadConfig(url)\<close> settles to.
  \<^item> \<open>localStorage_throws\<close>: reading \<open>window.localStorage\<close> throws.
  \<^item> \<open>setItem_throws\<close>: \<open>setItem(key, value)\<close> throws (quota).
  \<^item> \<open>JSON_stringify\<close>, \<open>JSON_parse\<close> (\<open>None\<close>: a \<open>SyntaxError\<close>).
  \<^item> \<open>getProfile\<close>: the profile in the redux state reached by the actions dispatched.
  \<^item> \<open>setConfigFromURLParams\<close>: what the in-place override by the URL's hash parameters
    leaves as the properties of the config object.
  \<^item> \<open>toString\<close>: the location's \<open>toString()\<close>.
  \<^item> \<open>newURL\<close>: \<open>new URL(text)\<close>, which throws (\<open>Inl\<close> what it throws, a \<open>TypeError\<close>)
    when the text is no URL and otherwise gives the URL (\<open>Inr\<close>, the URL as its text).
  \<^item> \<open>toLowerCase\<close>: \<open>String.prototype.toLowerCase\<close>.
  \<^item> \<open>parseURIString\<close>, \<open>getDefaultURL\<close>: the URI parser and the app's default URL.
  \<open>dispatch\<close> itself appends to the log and, for \<open>setLocationURL\<close>, returns a promise
  that is fulfilled; \<open>getItem\<close> and \<open>removeItem\<close> do not throw.
\<close>

record env =
  APP_defined :: bool
  window_config :: jsval
  loadConfig :: "string \<Rightarrow> jsval promise"
  localStorage_throws :: bool
  setItem_throws :: "string \<Rightarrow> string \<Rightarrow> bool"
  JSON_stringify :: "jsval \<Rightarrow> stringified"
  JSON_parse :: "string \<Rightarrow> jsval option"
  getProfile :: "action list \<Rightarrow> jsval"
  setConfigFromURLParams :: "location \<Rightarrow> props \<Rightarrow> props"
  toString :: "location \<Rightarrow> string"
  newURL :: "string \<Rightarrow> jsval + string"
  toLowerCase :: "string \<Rightarrow> string"
  parseURIString :: "string option \<Rightarrow> location option"
  getDefaultURL :: "string option"

definition dispatch :: "action \<Rightarrow> world \<Rightarrow> world" where
  "dispatch a w = w\<lparr>dispatched := dispatched w @ [a]\<rparr>"

subsection \<open>\<open>_mergeConfigWithProfile\<close>\<close>

text \<open>
  \<^verbatim>\<open>if (!config) { return; }  return { ...config, ...profile };\<close>
  The first argument is the identity of the object the literal allocates.
\<close>

definition mergeConfigWithProfile :: "nat \<Rightarrow> jsval \<Rightarrow> jsval \<Rightarrow> jsval" where
  "mergeConfigWithProfile fresh config profile =
     (if \<not> truthy config then JUndefined
      else JObject fresh
             (copyDataProperties (copyDataProperties [] (ownEnumerable config))
                (ownEnumerable profile)))"

subsection \<open>\<open>_loadConfig\<close>\<close>

text \<open>Lines 222 to 238: the protocol, the base URL, the resource URL and the key.\<close>

definition fetchProtocol :: "env \<Rightarrow> string \<Rightarrow> string" where
  "fetchProtocol e p =
     (let protocol = toLowerCase e p
      in if protocol \<noteq> ''http:'' \<and> protocol \<noteq> ''https:'' then ''https:'' else protocol)"

definition baseURL :: "env \<Rightarrow> string \<Rightarrow> location \<Rightarrow> string" where
  "baseURL e p loc =
     fetchProtocol e p @ ''//'' @ template (host loc)
       @ (if truthyStr (contextRoot loc) then template (contextRoot loc) else ''/'')"

definition configURL :: "env \<Rightarrow> string \<Rightarrow> location \<Rightarrow> string" where
  "configURL e p loc =
     (let url = baseURL e p loc @ ''config.js''
      in case room loc of
           None \<Rightarrow> url
         | Some r \<Rightarrow> if r \<noteq> [] then url @ ''?room='' @ toLowerCase e r else url)"

definition storageKey :: "env \<Rightarrow> string \<Rightarrow> location \<Rightarrow> string" where
  "storageKey e p loc = ''config.js/'' @ baseURL e p loc"

text \<open>
  The \<open>onFulfilled\<close> handler's \<open>try\<close> block: any throw inside it is swallowed.
  \<open>setItem\<close> turns an \<open>undefined\<close> value into the text \<open>undefined\<close>.
\<close>

definition storeConfig :: "env \<Rightarrow> string \<Rightarrow> jsval \<Rightarrow> world \<Rightarrow> world" where
  "storeConfig e key config w =
     (if window_config e = JUndefined \<or> \<not> strict_eq (window_config e) config then
        if localStorage_throws e then w
        else
          (case JSON_stringify e config of
             StringifyThrows \<Rightarrow> w
           | StringifyUndefined \<Rightarrow>
               if setItem_throws e key ''undefined'' then w
               else w\<lparr>localStorage := (localStorage w)(key \<mapsto> ''undefined'')\<rparr>
           | StringifyText text \<Rightarrow>
               if setItem_throws e key text then w
               else w\<lparr>localStorage := (localStorage w)(key \<mapsto> text)\<rparr>)
      else w)"

text \<open>The \<open>onRejected\<close> handler: the cached document, or the error again.\<close>

definition restoreConfig :: "env \<Rightarrow> string \<Rightarrow> jsval \<Rightarrow> world \<Rightarrow> jsval promise \<times> world" where
  "restoreConfig e key error w =
     (if localStorage_throws e then (Rejected error, w)
      else
        (case localStorage w key of
           None \<Rightarrow> (Rejected error, w)
         | Some config \<Rightarrow>
             if config \<noteq> [] then
               (case JSON_parse e config of
                  Some v \<Rightarrow> (Fulfilled v, w)
                | None \<Rightarrow> (Rejected error, w\<lparr>localStorage := (localStorage w)(key := None)\<rparr>))
             else (Rejected error, w)))"

definition loadConfig_private :: "env \<Rightarrow> location \<Rightarrow> world \<Rightarrow> jsval promise completion \<times> world" where
  "loadConfig_private e loc w =
     (if \<not> truthyStr (room loc) \<and> \<not> APP_defined e then (Returns (Fulfilled JUndefined), w)
      else
        (case protocol loc of
           None \<Rightarrow> (ThrowsTypeError, w)
         | Some p \<Rightarrow>
             (let url = configURL e p loc;
                  key = storageKey e p loc;
                  w1 = w\<lparr>requested := requested w @ [url]\<rparr>
              in case loadConfig e url of
                   Fulfilled config \<Rightarrow> (Returns (Fulfilled config), storeConfig e key config w1)
                 | Rejected error \<Rightarrow>
                     (case restoreConfig e key error w1 of
                        (r, w2) \<Rightarrow> (Returns r, w2)))))"

subsection \<open>\<open>_appNavigateToMandatoryLocation\<close> and \<open>loadConfigSettled\<close>\<close>

text \<open>
  \<open>setConfigFromURLParams\<close> changes the config object in place; a primitive has no
  properties to change. \<open>loadConfigSettled\<close> runs inside a \<open>then\<close> handler, so when
  \<open>new URL(newLocation.toString())\<close> throws, nothing has been dispatched yet and the
  promise is rejected with what was thrown.
\<close>

fun overrideConfig :: "env \<Rightarrow> location \<Rightarrow> jsval \<Rightarrow> jsval" where
  "overrideConfig e loc (JObject i ps) = JObject i (setConfigFromURLParams e loc ps)"
| "overrideConfig e loc v = v"

definition loadConfigSettled ::
  "env \<Rightarrow> location \<Rightarrow> jsval \<Rightarrow> jsval \<Rightarrow> world \<Rightarrow> unit promise \<times> world" where
  "loadConfigSettled e newLocation error config w =
     (let config1 = (if truthy config \<and> \<not> truthy error
                     then overrideConfig e newLocation config else config)
      in case newURL e (toString e newLocation) of
           Inl thrown \<Rightarrow> (Rejected thrown, w)
         | Inr url \<Rightarrow>
             (let w1 = dispatch (SetLocationURL url) w
              in if truthy error then
                   (Rejected error, dispatch (LoadConfigError error newLocation) w1)
                 else
                   (let profile = getProfile e (dispatched w1);
                        merged = mergeConfigWithProfile (nextObject w1) config1 profile;
                        w2 = (if truthy config1 then w1\<lparr>nextObject := Suc (nextObject w1)\<rparr>
                              else w1)
                    in (Fulfilled (), dispatch (SetConfig merged) w2))))"

definition appNavigateToMandatoryLocation ::
  "env \<Rightarrow> location \<Rightarrow> world \<Rightarrow> unit promise completion \<times> world" where
  "appNavigateToMandatoryLocation e newLocation w =
     (let w0 = dispatch (ConfigWillLoad newLocation) w
      in case loadConfig_private e newLocation w0 of
           (ThrowsTypeError, w1) \<Rightarrow> (ThrowsTypeError, w1)
         | (Returns settled, w1) \<Rightarrow>
             (case (case settled of
                      Fulfilled config \<Rightarrow> loadConfigSettled e newLocation JUndefined config w1
                    | Rejected error \<Rightarrow> loadConfigSettled e newLocation error JUndefined w1) of
                (Fulfilled u, w2) \<Rightarrow> (Returns (Fulfilled ()), dispatch (SetRoom (room newLocation)) w2)
              | (Rejected error, w2) \<Rightarrow> (Returns (Rejected error), w2)))"

subsection \<open>\<open>_appNavigateToOptionalLocation\<close> and \<open>appNavigate\<close>\<close>

text \<open>
  A location without a host takes host, hostname, port and protocol from the default
  location; a missing location is the default location. Reading a property of an
  \<open>undefined\<close> default location is a \<open>TypeError\<close>. A protocol that is still falsy
  becomes \<open>https:\<close>.
\<close>

definition appNavigateToOptionalLocation ::
  "env \<Rightarrow> location option \<Rightarrow> world \<Rightarrow> unit promise completion \<times> world" where
  "appNavigateToOptionalLocation e location w =
     (let defaultLocation = parseURIString e (getDefaultURL e);
          resolved =
            (case location of
               None \<Rightarrow> defaultLocation
             | Some l \<Rightarrow>
                 if \<not> truthyStr (host l) then
                   (case defaultLocation of
                      None \<Rightarrow> None
                    | Some d \<Rightarrow>
                        Some (l\<lparr>host := host d, hostname := hostname d,
                                port := port d, protocol := protocol d\<rparr>))
                 else Some l)
      in case resolved of
           None \<Rightarrow> (ThrowsTypeError, w)
         | Some l \<Rightarrow>
             appNavigateToMandatoryLocation e
               (if truthyStr (protocol l) then l else l\<lparr>protocol := Some ''https:''\<rparr>) w)"

definition appNavigate :: "env \<Rightarrow> string option \<Rightarrow> world \<Rightarrow> unit promise completion \<times> world" where
  "appNavigate e uri w = appNavigateToOptionalLocation e (parseURIString e uri) w"

subsection \<open>Deep equality\<close>

text \<open>
  Two values are deep-equal when they differ in the identities of their objects only.
\<close>

primrec forgetIdentity :: "jsval \<Rightarrow> jsval" where
  "forgetIdentity JUndefined = JUndefined"
| "forgetIdentity JNull = JNull"
| "forgetIdentity (JBoolean b) = JBoolean b"
| "forgetIdentity (JNumber n) = JNumber n"
| "forgetIdentity JNaN = JNaN"
| "forgetIdentity (JString s) = JString s"
| "forgetIdentity (JObject i ps) = JObject 0 (map (map_prod id forgetIdentity) ps)"

definition deepEqual :: "jsval \<Rightarrow> jsval \<Rightarrow> bool" where
  "deepEqual a b = (forgetIdentity a = forgetIdentity b)"

subsection \<open>A deployment to run the module on\<close>

text \<open>
  The location of the specification's scenario, the same deployment reached through the
  mobile app's own scheme, the welcome page (no room), and a welcome page whose port is
  out of range.
\<close>

definition exampleLocation :: location where
  "exampleLocation =
     \<lparr>contextRoot = Some ''/'', host = Some ''meet.example.com'',
      hostname = Some ''meet.example.com'', port = None,
      protocol = Some ''https:'', room = Some ''test''\<rparr>"

definition appSchemeLocation :: location where
  "appSchemeLocation =
     \<lparr>contextRoot = None, host = Some ''meet.example.com'',
      hostname = Some ''meet.example.com'', port = None,
      protocol = Some ''org.jitsi.meet:'', room = Some ''StandUp''\<rparr>"

definition welcomeLocation :: location where
  "welcomeLocation = exampleLocation\<lparr>room := None\<rparr>"

definition badPortLocation :: location where
  "badPortLocation =
     welcomeLocation\<lparr>host := Some ''meet.example.com:99999'', port := Some ''99999''\<rparr>"

definition exampleDocument :: jsval where
  "exampleDocument = JObject 1 [(''startWithAudioMuted'', JBoolean False)]"

definition exampleText :: string where
  \<open>exampleText = ''{"startWithAudioMuted":false}''\<close>

definition exampleProfile :: jsval where
  "exampleProfile = JObject 2 [(''displayName'', JString ''Ann'')]"

text \<open>
  Stand-ins for \<open>JSON.stringify\<close> and \<open>JSON.parse\<close> that know the values and the texts
  of the examples, on which they agree with JSON. Any other value makes the first one
  throw; any other text is a syntax error for the second one, as the empty text,
  \<open>undefined\<close> and \<open>{\<close> are for \<open>JSON.parse\<close>.
\<close>

definition exampleStringify :: "jsval \<Rightarrow> stringified" where
  "exampleStringify v =
     (if v = JUndefined then StringifyUndefined
      else if v = JNull then StringifyText ''null''
      else if deepEqual v exampleDocument then StringifyText exampleText
      else if deepEqual v (JObject 0 []) then StringifyText ''{}''
      else StringifyThrows)"

definition exampleParse :: "string \<Rightarrow> jsval option" where
  "exampleParse text =
     (if text = ''null'' then Some JNull
      else if text = exampleText then Some (JObject 7 [(''startWithAudioMuted'', JBoolean False)])
      else if text = ''{}'' then Some (JObject 7 [])
      else None)"

text \<open>
  Stand-ins for \<open>String.prototype.toLowerCase\<close>, which knows the ASCII letters (the
  examples have no other), and for \<open>new URL\<close>, which knows the texts of the examples:
  a port above 65535 is no URL.
\<close>

definition exampleLowerChar :: "char \<Rightarrow> char" where
  "exampleLowerChar c =
     (case map_of (zip ''ABCDEFGHIJKLMNOPQRSTUVWXYZ'' ''abcdefghijklmnopqrstuvwxyz'') c of
        Some l \<Rightarrow> l
      | None \<Rightarrow> c)"

definition exampleToLowerCase :: "string \<Rightarrow> string" where
  "exampleToLowerCase s = map exampleLowerChar s"

definition exampleTypeError :: jsval where
  "exampleTypeError = JObject 3 []"

definition exampleNewURL :: "string \<Rightarrow> jsval + string" where
  "exampleNewURL text =
     (if text = ''https://meet.example.com/'' \<or> text = ''https://meet.example.com/test''
      then Inr text else Inl exampleTypeError)"

definition exampleToString :: "location \<Rightarrow> string" where
  "exampleToString loc =
     template (protocol loc) @ ''//'' @ template (host loc) @ template (contextRoot loc)
       @ (case room loc of None \<Rightarrow> [] | Some r \<Rightarrow> r)"

text \<open>
  The mobile app (no \<open>APP\<close>, no \<open>window.config\<close>) on a deployment that serves the example
  document; the same with the download failing; and the web app, where \<open>loadConfig\<close>
  hands out the global \<open>window.config\<close> itself.
\<close>

definition exampleEnv :: env where
  "exampleEnv =
     \<lparr>APP_defined = False,
      window_config = JUndefined,
      loadConfig = (\<lambda>url. Fulfilled exampleDocument),
      localStorage_throws = False,
      setItem_throws = (\<lambda>key text. False),
      JSON_stringify = exampleStringify,
      JSON_parse = exampleParse,
      getProfile = (\<lambda>log. exampleProfile),
      setConfigFromURLParams = (\<lambda>loc ps. ps),
      toString = exampleToString,
      newURL = exampleNewURL,
      toLowerCase = exampleToLowerCase,
      parseURIString = (\<lambda>uri. if uri = None then None else Some exampleLocation),
      getDefaultURL = Some ''https://meet.example.com''\<rparr>"

definition offlineEnv :: "jsval \<Rightarrow> env" where
  "offlineEnv error = exampleEnv\<lparr>loadConfig := (\<lambda>url. Rejected error)\<rparr>"

definition webEnv :: env where
  "webEnv = exampleEnv\<lparr>APP_defined := True, window_config := exampleDocument\<rparr>"

definition emptyWorld :: world where
  "emptyWorld = \<lparr>dispatched = [], requested = [], localStorage = Map.empty, nextObject = 10\<rparr>"

definition cachedWorld :: "string \<Rightarrow> world" where
  "cachedWorld text =
     emptyWorld\<lparr>localStorage := [''config.js/https://meet.example.com/'' \<mapsto> text]\<rparr>"

section \<open>Properties\<close>

subsection \<open>Unfolding the examples, and how \<open>_loadConfig\<close> proceeds\<close>

lemmas example_defs =
  exampleLocation_def appSchemeLocation_def welcomeLocation_def exampleDocument_def
  exampleText_def exampleProfile_def exampleStringify_def exampleParse_def exampleToString_def
  exampleEnv_def offlineEnv_def webEnv_def emptyWorld_def cachedWorld_def deepEqual_def
  exampleToLowerCase_def exampleLowerChar_def exampleNewURL_def exampleTypeError_def
  badPortLocation_def

lemma exampleToLowerCase_alphabet:
  "exampleToLowerCase ''ABCDEFGHIJKLMNOPQRSTUVWXYZ'' = ''abcdefghijklmnopqrstuvwxyz''"
  "exampleToLowerCase ''abcdefghijklmnopqrstuvwxyz'' = ''abcdefghijklmnopqrstuvwxyz''"
  "exampleToLowerCase ''0123456789:/.-_?='' = ''0123456789:/.-_?=''"
  by (simp_all add: exampleToLowerCase_def exampleLowerChar_def)

lemma storeConfig_frame:
  "requested (storeConfig e key config w) = requested w"
  "dispatched (storeConfig e key config w) = dispatched w"
  "nextObject (storeConfig e key config w) = nextObject w"
  by (simp_all add: storeConfig_def split: stringified.splits)

lemma restoreConfig_frame:
  "requested (snd (restoreConfig e key error w)) = requested w"
  "dispatched (snd (restoreConfig e key error w)) = dispatched w"
  "nextObject (snd (restoreConfig e key error w)) = nextObject w"
  by (simp_all add: restoreConfig_def split: option.splits)

lemma loadConfig_private_skipped:
  "\<not> truthyStr (room loc) \<Longrightarrow> \<not> APP_defined e \<Longrightarrow>
   loadConfig_private e loc w = (Returns (Fulfilled JUndefined), w)"
  by (simp add: loadConfig_private_def)

lemma loadConfig_private_no_protocol:
  "truthyStr (room loc) \<or> APP_defined e \<Longrightarrow> protocol loc = None \<Longrightarrow>
   loadConfig_private e loc w = (ThrowsTypeError, w)"
  by (auto simp add: loadConfig_private_def)

lemma loadConfig_private_fulfilled:
  "truthyStr (room loc) \<or> APP_defined e \<Longrightarrow> protocol loc = Some p \<Longrightarrow>
   loadConfig e (configURL e p loc) = Fulfilled config \<Longrightarrow>
   loadConfig_private e loc w =
     (Returns (Fulfilled config),
      storeConfig e (storageKey e p loc) config (w\<lparr>requested := requested w @ [configURL e p loc]\<rparr>))"
  by (auto simp add: loadConfig_private_def Let_def)

lemma loadConfig_private_rejected:
  "truthyStr (room loc) \<or> APP_defined e \<Longrightarrow> protocol loc = Some p \<Longrightarrow>
   loadConfig e (configURL e p loc) = Rejected error \<Longrightarrow>
   loadConfig_private e loc w =
     (Returns (fst (restoreConfig e (storageKey e p loc) error
                      (w\<lparr>requested := requested w @ [configURL e p loc]\<rparr>))),
      snd (restoreConfig e (storageKey e p loc) error
             (w\<lparr>requested := requested w @ [configURL e p loc]\<rparr>)))"
  by (auto simp add: loadConfig_private_def Let_def split: prod.splits)

lemma loadConfig_private_requested:
  "truthyStr (room loc) \<or> APP_defined e \<Longrightarrow> protocol loc = Some p \<Longrightarrow>
   requested (snd (loadConfig_private e loc w)) = requested w @ [configURL e p loc]"
proof (cases "loadConfig e (configURL e p loc)")
  case (Fulfilled config)
  assume "truthyStr (room loc) \<or> APP_defined e" "protocol loc = Some p"
  then show ?thesis
    using Fulfilled by (simp add: loadConfig_private_fulfilled storeConfig_frame)
next
  case (Rejected error)
  assume "truthyStr (room loc) \<or> APP_defined e" "protocol loc = Some p"
  then show ?thesis
    using Rejected by (simp add: loadConfig_private_rejected restoreConfig_frame)
qed

lemma configURL_format:
  "configURL e p loc =
     (if toLowerCase e p = ''http:'' \<or> toLowerCase e p = ''https:'' then toLowerCase e p else ''https:'')
       @ ''//'' @ (case host loc of None \<Rightarrow> ''undefined'' | Some h \<Rightarrow> h)
       @ (case contextRoot loc of None \<Rightarrow> ''/'' | Some c \<Rightarrow> if c = [] then ''/'' else c)
       @ ''config.js''
       @ (case room loc of None \<Rightarrow> [] | Some r \<Rightarrow> if r = [] then [] else ''?room='' @ toLowerCase e r)"
  by (simp add: configURL_def baseURL_def fetchProtocol_def Let_def split: option.splits)

lemma storageKey_format:
  "storageKey e p loc =
     ''config.js/''
       @ (if toLowerCase e p = ''http:'' \<or> toLowerCase e p = ''https:'' then toLowerCase e p else ''https:'')
       @ ''//'' @ (case host loc of None \<Rightarrow> ''undefined'' | Some h \<Rightarrow> h)
       @ (case contextRoot loc of None \<Rightarrow> ''/'' | Some c \<Rightarrow> if c = [] then ''/'' else c)"
  by (simp add: storageKey_def baseURL_def fetchProtocol_def Let_def split: option.splits)

subsection \<open>The resource that is fetched\<close>

text \<open>
  Claim C6. Whenever \<open>_loadConfig\<close> hands a URL to \<open>loadConfig\<close>, that URL is the
  protocol lowercased by \<open>String.prototype.toLowerCase\<close> (replaced by \<open>https:\<close> when that
  is neither \<open>http:\<close> nor \<open>https:\<close>), \<open>//\<close>, the host, the context root (\<open>/\<close> when it
  is absent, that is \<open>undefined\<close> or empty), \<open>config.js\<close> and, exactly when the room is
  set (defined and not empty), \<open>?room=\<close> with the room lowercased by
  \<open>String.prototype.toLowerCase\<close>. A fetch is made exactly when there is a room or the
  full application is running, and the protocol is there to be lowercased.
\<close>

theorem fetch_url_format:
  "requested (snd (loadConfig_private e loc w)) =
     (case protocol loc of
        None \<Rightarrow> requested w
      | Some p \<Rightarrow>
          if truthyStr (room loc) \<or> APP_defined e then
            requested w @
              [(if toLowerCase e p = ''http:'' \<or> toLowerCase e p = ''https:'' then toLowerCase e p
                else ''https:'')
                 @ ''//'' @ (case host loc of None \<Rightarrow> ''undefined'' | Some h \<Rightarrow> h)
                 @ (case contextRoot loc of None \<Rightarrow> ''/'' | Some c \<Rightarrow> if c = [] then ''/'' else c)
                 @ ''config.js''
                 @ (case room loc of
                      None \<Rightarrow> []
                    | Some r \<Rightarrow> if r = [] then [] else ''?room='' @ toLowerCase e r)]
          else requested w)"
proof (cases "truthyStr (room loc) \<or> APP_defined e")
  case False
  then have "loadConfig_private e loc w = (Returns (Fulfilled JUndefined), w)"
    by (simp add: loadConfig_private_skipped)
  with False show ?thesis by (simp split: option.splits)
next
  case fetch: True
  show ?thesis
  proof (cases "protocol loc")
    case None
    with fetch show ?thesis by (simp add: loadConfig_private_no_protocol)
  next
    case (Some p)
    have "requested (snd (loadConfig_private e loc w)) = requested w @ [configURL e p loc]"
      using fetch Some by (rule loadConfig_private_requested)
    then show ?thesis
      using fetch Some by (simp only: configURL_format option.case if_True)
  qed
qed

theorem fetch_url_format_witness:
  "requested (snd (loadConfig_private exampleEnv appSchemeLocation emptyWorld))
     = [''https://meet.example.com/config.js?room=standup'']"
  using fetch_url_format [of exampleEnv appSchemeLocation emptyWorld]
  by (simp add: example_defs)


subsection \<open>The merge of a config with the profile\<close>

lemma map_of_putProperty: "map_of (putProperty k v ps) = (map_of ps)(k \<mapsto> v)"
  by (induction ps) auto

lemma map_of_copyDataProperties:
  "distinct (map fst source) \<Longrightarrow>
   map_of (copyDataProperties target source) = map_of target ++ map_of source"
proof (induction source arbitrary: target)
  case Nil
  then show ?case by (simp add: copyDataProperties_def)
next
  case (Cons a source)
  obtain k v where a: "a = (k, v)" by (cases a)
  from Cons.prems a have k: "k \<notin> fst ` set source" and d: "distinct (map fst source)" by auto
  have "copyDataProperties target (a # source) = copyDataProperties (putProperty k v target) source"
    by (simp add: copyDataProperties_def a)
  also have "map_of \<dots> = map_of (putProperty k v target) ++ map_of source"
    by (rule Cons.IH [OF d])
  also have "\<dots> = (map_of target)(k \<mapsto> v) ++ map_of source"
    by (simp only: map_of_putProperty)
  also have "\<dots> = map_of target ++ map_of (a # source)"
  proof -
    from k have "map_of source k = None" by (simp add: map_of_eq_None_iff)
    then show ?thesis by (auto simp: a map_add_def fun_eq_iff split: option.splits)
  qed
  finally show ?case .
qed

text \<open>
  Claim C8. For a config object and a profile object (their property lists have no key
  twice), the merge is an object in which a key of the profile only has the profile's
  value, a key of both has the profile's value, and a key the profile does not have is
  as in the config.
\<close>

theorem merge_law:
  assumes "distinct (map fst cs)" and "distinct (map fst ps)"
  shows "\<exists>ms. mergeConfigWithProfile n (JObject i cs) (JObject j ps) = JObject n ms
           \<and> (\<forall>k v. k \<notin> fst ` set cs \<and> map_of ps k = Some v \<longrightarrow> map_of ms k = Some v)
           \<and> (\<forall>k v. k \<in> fst ` set cs \<and> map_of ps k = Some v \<longrightarrow> map_of ms k = Some v)
           \<and> (\<forall>k. k \<notin> fst ` set ps \<longrightarrow> map_of ms k = map_of cs k)"
proof -
  let ?ms = "copyDataProperties (copyDataProperties [] cs) ps"
  have m: "map_of ?ms = map_of cs ++ map_of ps"
    using assms by (simp add: map_of_copyDataProperties)
  have "mergeConfigWithProfile n (JObject i cs) (JObject j ps) = JObject n ?ms"
    by (simp add: mergeConfigWithProfile_def)
  moreover have "\<forall>k v. map_of ps k = Some v \<longrightarrow> map_of ?ms k = Some v"
    by (simp add: m map_add_def)
  moreover have "\<forall>k. k \<notin> fst ` set ps \<longrightarrow> map_of ?ms k = map_of cs k"
  proof (intro allI impI)
    fix k assume "k \<notin> fst ` set ps"
    then have "map_of ps k = None" by (simp add: map_of_eq_None_iff)
    then show "map_of ?ms k = map_of cs k" by (simp add: m map_add_def)
  qed
  ultimately show ?thesis by blast
qed

theorem merge_law_witness:
  "\<exists>ms. mergeConfigWithProfile 9 (JObject 1 [(''startWithAudioMuted'', JBoolean False), (''resolution'', JNumber 720)])
           (JObject 2 [(''startWithAudioMuted'', JBoolean True), (''displayName'', JString ''Ann'')]) = JObject 9 ms
     \<and> map_of ms ''displayName'' = Some (JString ''Ann'')
     \<and> map_of ms ''startWithAudioMuted'' = Some (JBoolean True)
     \<and> map_of ms ''resolution'' = Some (JNumber 720)"
  using merge_law [of "[(''startWithAudioMuted'', JBoolean False), (''resolution'', JNumber 720)]"
      "[(''startWithAudioMuted'', JBoolean True), (''displayName'', JString ''Ann'')]" 9 1 2]
  by (simp add: mergeConfigWithProfile_def copyDataProperties_def)

subsection \<open>What the handlers of \<open>_loadConfig\<close> do to the store\<close>

lemma restoreConfig_cached:
  assumes "\<not> localStorage_throws e" and "localStorage w key = Some t" and "t \<noteq> []"
    and "JSON_parse e t = Some v"
  shows "restoreConfig e key error w = (Fulfilled v, w)"
  using assms by (simp add: restoreConfig_def)

lemma restoreConfig_corrupt:
  assumes "\<not> localStorage_throws e" and "localStorage w key = Some t" and "t \<noteq> []"
    and "JSON_parse e t = None"
  shows "restoreConfig e key error w =
           (Rejected error, w\<lparr>localStorage := (localStorage w)(key := None)\<rparr>)"
  using assms by (simp add: restoreConfig_def)

lemma restoreConfig_nothing:
  assumes "localStorage_throws e \<or> localStorage w key = None \<or> localStorage w key = Some []"
  shows "restoreConfig e key error w = (Rejected error, w)"
  using assms by (auto simp add: restoreConfig_def)

lemma storeConfig_written:
  assumes "window_config e = JUndefined \<or> \<not> strict_eq (window_config e) config"
    and "\<not> localStorage_throws e" and "JSON_stringify e config = StringifyText t"
    and "\<not> setItem_throws e key t"
  shows "storeConfig e key config w = w\<lparr>localStorage := (localStorage w)(key \<mapsto> t)\<rparr>"
  using assms by (auto simp add: storeConfig_def)

lemma storeConfig_elsewhere:
  "k \<noteq> key \<Longrightarrow> localStorage (storeConfig e key config w) k = localStorage w k"
  by (simp add: storeConfig_def split: stringified.splits)

lemma restoreConfig_elsewhere:
  "k \<noteq> key \<Longrightarrow> localStorage (snd (restoreConfig e key error w)) k = localStorage w k"
  by (simp add: restoreConfig_def split: option.splits)

lemma restoreConfig_reads_key:
  "localStorage w' key = localStorage w key \<Longrightarrow>
   fst (restoreConfig e key error w') = fst (restoreConfig e key error w)"
  by (simp add: restoreConfig_def split: option.splits)

lemma restoreConfig_rejects:
  "fst (restoreConfig e key error w) = Rejected E \<Longrightarrow> E = error"
  by (simp add: restoreConfig_def split: if_splits option.splits)

lemma storageKey_room: "storageKey e p (loc\<lparr>room := r\<rparr>) = storageKey e p loc"
  by (simp add: storageKey_def baseURL_def)

lemma storageKey_loadConfig:
  "storageKey (e\<lparr>loadConfig := f\<rparr>) p loc = storageKey e p loc"
  by (simp add: storageKey_def baseURL_def fetchProtocol_def)

lemma loadConfig_private_frame:
  "dispatched (snd (loadConfig_private e loc w)) = dispatched w
     \<and> nextObject (snd (loadConfig_private e loc w)) = nextObject w"
proof (cases "truthyStr (room loc) \<or> APP_defined e")
  case False
  then show ?thesis by (simp add: loadConfig_private_skipped)
next
  case fetch: True
  show ?thesis
  proof (cases "protocol loc")
    case None
    with fetch show ?thesis by (simp add: loadConfig_private_no_protocol)
  next
    case (Some p)
    show ?thesis
    proof (cases "loadConfig e (configURL e p loc)")
      case (Fulfilled config)
      with fetch Some show ?thesis
        by (simp add: loadConfig_private_fulfilled storeConfig_frame)
    next
      case (Rejected error)
      with fetch Some show ?thesis
        by (simp add: loadConfig_private_rejected restoreConfig_frame)
    qed
  qed
qed

lemma loadConfig_private_throws_iff:
  "fst (loadConfig_private e loc w) = ThrowsTypeError \<longleftrightarrow>
     (truthyStr (room loc) \<or> APP_defined e) \<and> protocol loc = None"
proof (cases "truthyStr (room loc) \<or> APP_defined e")
  case False
  then show ?thesis by (simp add: loadConfig_private_skipped)
next
  case fetch: True
  show ?thesis
  proof (cases "protocol loc")
    case None
    with fetch show ?thesis by (simp add: loadConfig_private_no_protocol)
  next
    case (Some p)
    show ?thesis
    proof (cases "loadConfig e (configURL e p loc)")
      case (Fulfilled config)
      with fetch Some show ?thesis by (simp add: loadConfig_private_fulfilled)
    next
      case (Rejected error)
      with fetch Some show ?thesis by (simp add: loadConfig_private_rejected)
    qed
  qed
qed

lemma loadConfig_private_rejects:
  assumes "fst (loadConfig_private e loc w) = Returns (Rejected E)"
  shows "\<exists>p. protocol loc = Some p \<and> loadConfig e (configURL e p loc) = Rejected E"
proof (cases "truthyStr (room loc) \<or> APP_defined e")
  case False
  with assms show ?thesis by (simp add: loadConfig_private_skipped)
next
  case fetch: True
  show ?thesis
  proof (cases "protocol loc")
    case None
    with fetch assms show ?thesis by (simp add: loadConfig_private_no_protocol)
  next
    case (Some p)
    show ?thesis
    proof (cases "loadConfig e (configURL e p loc)")
      case (Fulfilled config)
      with fetch Some assms show ?thesis by (simp add: loadConfig_private_fulfilled)
    next
      case (Rejected error)
      with fetch Some assms have "E = error"
        by (simp add: loadConfig_private_rejected restoreConfig_rejects)
      with Some Rejected show ?thesis by simp
    qed
  qed
qed

lemma example_lowercase:
  "toLowerCase exampleEnv = exampleToLowerCase"
  "toLowerCase (offlineEnv error) = exampleToLowerCase"
  "toLowerCase webEnv = exampleToLowerCase"
  by (simp_all add: example_defs)

lemma example_key:
  "toLowerCase e = exampleToLowerCase \<Longrightarrow>
   storageKey e ''https:'' exampleLocation = ''config.js/https://meet.example.com/''"
  by (simp add: example_defs storageKey_format)

lemma example_url:
  "toLowerCase e = exampleToLowerCase \<Longrightarrow>
   configURL e ''https:'' exampleLocation = ''https://meet.example.com/config.js?room=test''"
  by (simp add: example_defs configURL_format)

lemma example_urls:
  "newURL exampleEnv (toString exampleEnv exampleLocation) = Inr ''https://meet.example.com/test''"
  "newURL (offlineEnv error) (toString (offlineEnv error) exampleLocation)
     = Inr ''https://meet.example.com/test''"
  "newURL exampleEnv (toString exampleEnv welcomeLocation) = Inr ''https://meet.example.com/''"
  "newURL exampleEnv (toString exampleEnv badPortLocation) = Inl exampleTypeError"
  "newURL (offlineEnv error) (toString (offlineEnv error) (badPortLocation\<lparr>room := Some ''test''\<rparr>))
     = Inl exampleTypeError"
  by (simp_all add: example_defs)

lemma example_load:
  "loadConfig_private exampleEnv exampleLocation w =
     (Returns (Fulfilled exampleDocument),
      w\<lparr>requested := requested w @ [''https://meet.example.com/config.js?room=test''],
        localStorage := (localStorage w)(''config.js/https://meet.example.com/'' \<mapsto> exampleText)\<rparr>)"
proof -
  have 1: "truthyStr (room exampleLocation) \<or> APP_defined exampleEnv" by (simp add: example_defs)
  have 2: "protocol exampleLocation = Some ''https:''" by (simp add: example_defs)
  have 3: "loadConfig exampleEnv (configURL exampleEnv ''https:'' exampleLocation) = Fulfilled exampleDocument"
    by (simp add: example_defs)
  have 4: "window_config exampleEnv = JUndefined
             \<or> \<not> strict_eq (window_config exampleEnv) exampleDocument"
    by (simp add: example_defs)
  have 5: "\<not> localStorage_throws exampleEnv" by (simp add: example_defs)
  have 6: "JSON_stringify exampleEnv exampleDocument = StringifyText exampleText"
    by (simp add: example_defs)
  have 7: "\<not> setItem_throws exampleEnv k exampleText" for k
    by (simp add: example_defs)
  show ?thesis
    by (simp add: loadConfig_private_fulfilled [OF 1 2 3] storeConfig_written [OF 4 5 6 7]
        example_key example_url example_lowercase)
qed

lemma offline_load:
  "loadConfig_private (offlineEnv error) exampleLocation (w\<lparr>localStorage := Map.empty\<rparr>) =
     (Returns (Rejected error),
      w\<lparr>localStorage := Map.empty,
        requested := requested w @ [''https://meet.example.com/config.js?room=test'']\<rparr>)"
proof -
  have 1: "truthyStr (room exampleLocation) \<or> APP_defined (offlineEnv error)"
    by (simp add: example_defs)
  have 2: "protocol exampleLocation = Some ''https:''" by (simp add: example_defs)
  have 3: "loadConfig (offlineEnv error) (configURL (offlineEnv error) ''https:'' exampleLocation)
             = Rejected error"
    by (simp add: example_defs)
  show ?thesis
    by (simp add: loadConfig_private_rejected [OF 1 2 3] restoreConfig_nothing example_url
        example_lowercase)
qed

lemma offline_load_empty:
  "loadConfig_private (offlineEnv error) exampleLocation
     (dispatch (ConfigWillLoad exampleLocation) emptyWorld) =
   (Returns (Rejected error),
    emptyWorld\<lparr>dispatched := [ConfigWillLoad exampleLocation],
      requested := [''https://meet.example.com/config.js?room=test'']\<rparr>)"
  using offline_load [of error "dispatch (ConfigWillLoad exampleLocation) emptyWorld"]
  by (simp add: emptyWorld_def dispatch_def)

lemma welcome_load:
  "loadConfig_private exampleEnv welcomeLocation w = (Returns (Fulfilled JUndefined), w)"
  by (rule loadConfig_private_skipped) (simp_all add: example_defs)


subsection \<open>What a navigation dispatches\<close>

text \<open>
  The ways a navigation ends once \<open>_loadConfig\<close> has returned a promise: the text of the
  location is no URL and nothing more is dispatched, a config is merged and committed, no
  config is there to merge, an error is reported, or the rejection reason is falsy and
  is taken for no error at all.
\<close>

lemma truthy_overrideConfig: "truthy (overrideConfig e loc config) = truthy config"
  by (cases config) simp_all

lemma mergeConfigWithProfile_object:
  "truthy config \<Longrightarrow> \<exists>ms. mergeConfigWithProfile n config profile = JObject n ms"
  by (simp add: mergeConfigWithProfile_def)

lemma loadConfigSettled_no_url:
  "newURL e (toString e loc) = Inl thrown \<Longrightarrow>
   loadConfigSettled e loc error config w = (Rejected thrown, w)"
  by (simp add: loadConfigSettled_def Let_def)

lemma loadConfigSettled_error:
  "newURL e (toString e loc) = Inr url \<Longrightarrow> truthy error \<Longrightarrow>
   loadConfigSettled e loc error config w =
     (Rejected error,
      w\<lparr>dispatched := dispatched w @ [SetLocationURL url, LoadConfigError error loc]\<rparr>)"
  by (simp add: loadConfigSettled_def dispatch_def Let_def)

lemma loadConfigSettled_config:
  "newURL e (toString e loc) = Inr url \<Longrightarrow> \<not> truthy error \<Longrightarrow> truthy config \<Longrightarrow>
   loadConfigSettled e loc error config w =
     (Fulfilled (),
      w\<lparr>dispatched := dispatched w @
           [SetLocationURL url,
            SetConfig (mergeConfigWithProfile (nextObject w) (overrideConfig e loc config)
                         (getProfile e (dispatched w @ [SetLocationURL url])))],
        nextObject := Suc (nextObject w)\<rparr>)"
  by (simp add: loadConfigSettled_def dispatch_def Let_def truthy_overrideConfig)

lemma loadConfigSettled_no_config:
  "newURL e (toString e loc) = Inr url \<Longrightarrow> \<not> truthy error \<Longrightarrow> \<not> truthy config \<Longrightarrow>
   loadConfigSettled e loc error config w =
     (Fulfilled (),
      w\<lparr>dispatched := dispatched w @ [SetLocationURL url, SetConfig JUndefined]\<rparr>)"
  by (simp add: loadConfigSettled_def dispatch_def Let_def mergeConfigWithProfile_def)

lemma navigate_no_url:
  assumes "loadConfig_private e loc (dispatch (ConfigWillLoad loc) w) = (Returns settled, w1)"
    and "newURL e (toString e loc) = Inl thrown"
  shows "appNavigateToMandatoryLocation e loc w =
     (Returns (Rejected thrown), w1\<lparr>dispatched := dispatched w @ [ConfigWillLoad loc]\<rparr>)"
proof -
  from loadConfig_private_frame [of e loc "dispatch (ConfigWillLoad loc) w"] assms(1)
  have f: "dispatched w1 = dispatched w @ [ConfigWillLoad loc]"
    by (simp_all add: dispatch_def)
  then have "w1\<lparr>dispatched := dispatched w @ [ConfigWillLoad loc]\<rparr> = w1" by simp
  then show ?thesis
    using assms
    by (cases settled)
      (simp_all add: appNavigateToMandatoryLocation_def Let_def loadConfigSettled_no_url)
qed

lemma navigate_config:
  assumes "loadConfig_private e loc (dispatch (ConfigWillLoad loc) w) = (Returns (Fulfilled config), w1)"
    and "truthy config"
    and "newURL e (toString e loc) = Inr url"
  shows "appNavigateToMandatoryLocation e loc w =
     (Returns (Fulfilled ()),
      w1\<lparr>dispatched := dispatched w @
           [ConfigWillLoad loc, SetLocationURL url,
            SetConfig (mergeConfigWithProfile (nextObject w) (overrideConfig e loc config)
                         (getProfile e (dispatched w @ [ConfigWillLoad loc, SetLocationURL url]))),
            SetRoom (room loc)],
        nextObject := Suc (nextObject w)\<rparr>)"
proof -
  from loadConfig_private_frame [of e loc "dispatch (ConfigWillLoad loc) w"] assms(1)
  have f: "dispatched w1 = dispatched w @ [ConfigWillLoad loc]" "nextObject w1 = nextObject w"
    by (simp_all add: dispatch_def)
  show ?thesis
    using assms(1,2) f
    by (simp add: appNavigateToMandatoryLocation_def Let_def
        loadConfigSettled_config [OF assms(3)] dispatch_def)
qed

lemma navigate_no_config:
  assumes "loadConfig_private e loc (dispatch (ConfigWillLoad loc) w) = (Returns (Fulfilled config), w1)"
    and "\<not> truthy config"
    and "newURL e (toString e loc) = Inr url"
  shows "appNavigateToMandatoryLocation e loc w =
     (Returns (Fulfilled ()),
      w1\<lparr>dispatched := dispatched w @
           [ConfigWillLoad loc, SetLocationURL url, SetConfig JUndefined,
            SetRoom (room loc)]\<rparr>)"
proof -
  from loadConfig_private_frame [of e loc "dispatch (ConfigWillLoad loc) w"] assms(1)
  have f: "dispatched w1 = dispatched w @ [ConfigWillLoad loc]"
    by (simp_all add: dispatch_def)
  show ?thesis
    using assms(1,2) f
    by (simp add: appNavigateToMandatoryLocation_def Let_def
        loadConfigSettled_no_config [OF assms(3)] dispatch_def)
qed

lemma navigate_error:
  assumes "loadConfig_private e loc (dispatch (ConfigWillLoad loc) w) = (Returns (Rejected error), w1)"
    and "truthy error"
    and "newURL e (toString e loc) = Inr url"
  shows "appNavigateToMandatoryLocation e loc w =
     (Returns (Rejected error),
      w1\<lparr>dispatched := dispatched w @
           [ConfigWillLoad loc, SetLocationURL url, LoadConfigError error loc]\<rparr>)"
proof -
  from loadConfig_private_frame [of e loc "dispatch (ConfigWillLoad loc) w"] assms(1)
  have f: "dispatched w1 = dispatched w @ [ConfigWillLoad loc]"
    by (simp_all add: dispatch_def)
  show ?thesis
    using assms(1,2) f
    by (simp add: appNavigateToMandatoryLocation_def Let_def
        loadConfigSettled_error [OF assms(3)] dispatch_def)
qed

lemma navigate_falsy_error:
  assumes "loadConfig_private e loc (dispatch (ConfigWillLoad loc) w) = (Returns (Rejected error), w1)"
    and "\<not> truthy error"
    and "newURL e (toString e loc) = Inr url"
  shows "appNavigateToMandatoryLocation e loc w =
     (Returns (Fulfilled ()),
      w1\<lparr>dispatched := dispatched w @
           [ConfigWillLoad loc, SetLocationURL url, SetConfig JUndefined,
            SetRoom (room loc)]\<rparr>)"
proof -
  from loadConfig_private_frame [of e loc "dispatch (ConfigWillLoad loc) w"] assms(1)
  have f: "dispatched w1 = dispatched w @ [ConfigWillLoad loc]"
    by (simp_all add: dispatch_def)
  show ?thesis
    using assms(1,2) f
    by (simp add: appNavigateToMandatoryLocation_def Let_def
        loadConfigSettled_no_config [OF assms(3)] dispatch_def)
qed

lemma navigate_throws:
  assumes "loadConfig_private e loc (dispatch (ConfigWillLoad loc) w) = (ThrowsTypeError, w1)"
  shows "appNavigateToMandatoryLocation e loc w = (ThrowsTypeError, w1)"
  using assms by (simp add: appNavigateToMandatoryLocation_def Let_def)

lemma navigate_throws_iff:
  "fst (appNavigateToMandatoryLocation e loc w) = ThrowsTypeError \<longleftrightarrow>
     (truthyStr (room loc) \<or> APP_defined e) \<and> protocol loc = None"
proof -
  let ?w0 = "dispatch (ConfigWillLoad loc) w"
  obtain r w1 where l: "loadConfig_private e loc ?w0 = (r, w1)"
    by (cases "loadConfig_private e loc ?w0")
  show ?thesis
  proof (cases r)
    case ThrowsTypeError
    with l have "fst (appNavigateToMandatoryLocation e loc w) = ThrowsTypeError"
      by (simp add: navigate_throws)
    moreover from l ThrowsTypeError have "fst (loadConfig_private e loc ?w0) = ThrowsTypeError"
      by simp
    ultimately show ?thesis by (simp add: loadConfig_private_throws_iff)
  next
    case (Returns settled)
    with l have n: "fst (loadConfig_private e loc ?w0) \<noteq> ThrowsTypeError" by simp
    have "fst (appNavigateToMandatoryLocation e loc w) \<noteq> ThrowsTypeError"
    proof (cases "newURL e (toString e loc)")
      case (Inl thrown)
      with l Returns show ?thesis by (simp add: navigate_no_url)
    next
      case (Inr url)
      show ?thesis
      proof (cases settled)
        case (Fulfilled config)
        with l Returns Inr show ?thesis
          by (cases "truthy config") (simp_all add: navigate_config navigate_no_config)
      next
        case (Rejected error)
        with l Returns Inr show ?thesis
          by (cases "truthy error") (simp_all add: navigate_error navigate_falsy_error)
      qed
    qed
    with n show ?thesis by (simp add: loadConfig_private_throws_iff)
  qed
qed


text \<open>
  A location that went through \<open>_appNavigateToOptionalLocation\<close> has a protocol: when
  the app's default URL parses, \<open>appNavigate\<close> throws no \<open>TypeError\<close>.
\<close>

lemma optional_location_has_protocol:
  assumes "parseURIString e (getDefaultURL e) \<noteq> None"
  shows "fst (appNavigateToOptionalLocation e location w) \<noteq> ThrowsTypeError"
proof -
  from assms obtain d where d: "parseURIString e (getDefaultURL e) = Some d" by auto
  have p: "protocol (if truthyStr (protocol l) then l else l\<lparr>protocol := Some ''https:''\<rparr>) \<noteq> None" for l :: location
    by (cases "protocol l") auto
  show ?thesis
    by (auto simp add: appNavigateToOptionalLocation_def d Let_def navigate_throws_iff
        split: option.splits)
qed

lemma appNavigate_has_protocol:
  assumes "parseURIString e (getDefaultURL e) \<noteq> None"
  shows "fst (appNavigate e uri w) \<noteq> ThrowsTypeError"
  using assms by (simp add: appNavigate_def optional_location_has_protocol)


subsection \<open>The key of the cache\<close>

text \<open>
  Claim C1, as the code has it. The key is \<open>config.js/\<close> (not \<open>config/\<close>) followed by
  the base URL: the lowercased protocol (\<open>https:\<close> unless it is \<open>http:\<close> or \<open>https:\<close>),
  \<open>//\<close>, the host and the context root (\<open>/\<close> when absent). Whatever the room is,
  \<open>_loadConfig\<close> leaves every other entry of the store alone, caches a fetched document
  under that key, and its result depends on the store through that entry only.
\<close>

theorem cache_key_format:
  assumes "protocol loc = Some p"
    and "K = ''config.js/''
           @ (if toLowerCase e p = ''http:'' \<or> toLowerCase e p = ''https:'' then toLowerCase e p
              else ''https:'')
           @ ''//'' @ (case host loc of None \<Rightarrow> ''undefined'' | Some h \<Rightarrow> h)
           @ (case contextRoot loc of None \<Rightarrow> ''/'' | Some c \<Rightarrow> if c = [] then ''/'' else c)"
  shows "(\<forall>r k. k \<noteq> K \<longrightarrow>
            localStorage (snd (loadConfig_private e (loc\<lparr>room := r\<rparr>) w)) k = localStorage w k)
     \<and> (\<forall>r D t.
           (truthyStr r \<or> APP_defined e)
           \<and> loadConfig e (configURL e p (loc\<lparr>room := r\<rparr>)) = Fulfilled D
           \<and> (window_config e = JUndefined \<or> \<not> strict_eq (window_config e) D)
           \<and> \<not> localStorage_throws e \<and> JSON_stringify e D = StringifyText t
           \<and> \<not> setItem_throws e K t \<longrightarrow>
           localStorage (snd (loadConfig_private e (loc\<lparr>room := r\<rparr>) w)) K = Some t)
     \<and> (\<forall>r w'. localStorage w' K = localStorage w K \<longrightarrow>
           fst (loadConfig_private e (loc\<lparr>room := r\<rparr>) w')
             = fst (loadConfig_private e (loc\<lparr>room := r\<rparr>) w))"
proof -
  have K: "storageKey e p (loc\<lparr>room := r\<rparr>) = K" for r
    by (simp add: storageKey_room storageKey_format assms(2))
  have p: "protocol (loc\<lparr>room := r\<rparr>) = Some p" for r
    using assms(1) by simp
  have frame: "localStorage (snd (loadConfig_private e (loc\<lparr>room := r\<rparr>) w)) k = localStorage w k"
    if "k \<noteq> K" for r k
  proof (cases "truthyStr (room (loc\<lparr>room := r\<rparr>)) \<or> APP_defined e")
    case False
    then show ?thesis by (simp add: loadConfig_private_skipped)
  next
    case fetch: True
    show ?thesis
    proof (cases "loadConfig e (configURL e p (loc\<lparr>room := r\<rparr>))")
      case (Fulfilled config)
      show ?thesis
        using that
        by (simp add: loadConfig_private_fulfilled [OF fetch p Fulfilled] K storeConfig_elsewhere)
    next
      case (Rejected error)
      show ?thesis
        using that
        by (simp add: loadConfig_private_rejected [OF fetch p Rejected] K restoreConfig_elsewhere)
    qed
  qed
  have written: "localStorage (snd (loadConfig_private e (loc\<lparr>room := r\<rparr>) w)) K = Some t"
    if "truthyStr r \<or> APP_defined e" "loadConfig e (configURL e p (loc\<lparr>room := r\<rparr>)) = Fulfilled D"
      "window_config e = JUndefined \<or> \<not> strict_eq (window_config e) D"
      "\<not> localStorage_throws e" "JSON_stringify e D = StringifyText t" "\<not> setItem_throws e K t"
    for r D t
  proof -
    from that(1) have fetch: "truthyStr (room (loc\<lparr>room := r\<rparr>)) \<or> APP_defined e" by simp
    show ?thesis
      using storeConfig_written [OF that(3-6)]
      by (simp add: loadConfig_private_fulfilled [OF fetch p that(2)] K)
  qed
  have reads: "fst (loadConfig_private e (loc\<lparr>room := r\<rparr>) w')
                 = fst (loadConfig_private e (loc\<lparr>room := r\<rparr>) w)"
    if "localStorage w' K = localStorage w K" for r w'
  proof (cases "truthyStr (room (loc\<lparr>room := r\<rparr>)) \<or> APP_defined e")
    case False
    then show ?thesis by (simp add: loadConfig_private_skipped)
  next
    case fetch: True
    show ?thesis
    proof (cases "loadConfig e (configURL e p (loc\<lparr>room := r\<rparr>))")
      case (Fulfilled config)
      show ?thesis
        by (simp add: loadConfig_private_fulfilled [OF fetch p Fulfilled])
    next
      case (Rejected error)
      have "fst (restoreConfig e K error (w'\<lparr>requested := requested w' @ [configURL e p (loc\<lparr>room := r\<rparr>)]\<rparr>))
              = fst (restoreConfig e K error (w\<lparr>requested := requested w @ [configURL e p (loc\<lparr>room := r\<rparr>)]\<rparr>))"
        by (rule restoreConfig_reads_key) (simp add: that)
      then show ?thesis
        by (simp add: loadConfig_private_rejected [OF fetch p Rejected] K)
    qed
  qed
  from frame written reads show ?thesis by blast
qed


text \<open>
  The mobile app's scheme is replaced by \<open>https:\<close>, and two rooms of one deployment
  share the entry.
\<close>

theorem cache_key_format_witness:
  "localStorage (snd (loadConfig_private exampleEnv appSchemeLocation emptyWorld))
     ''config.js/https://meet.example.com/'' = Some exampleText
   \<and> localStorage (snd (loadConfig_private exampleEnv (appSchemeLocation\<lparr>room := Some ''other''\<rparr>) emptyWorld))
     ''config.js/https://meet.example.com/'' = Some exampleText"
proof -
  have 1: "protocol appSchemeLocation = Some ''org.jitsi.meet:''" by (simp add: example_defs)
  have 2: "''config.js/https://meet.example.com/'' = ''config.js/''
           @ (if toLowerCase exampleEnv ''org.jitsi.meet:'' = ''http:''
                 \<or> toLowerCase exampleEnv ''org.jitsi.meet:'' = ''https:''
              then toLowerCase exampleEnv ''org.jitsi.meet:'' else ''https:'')
           @ ''//'' @ (case host appSchemeLocation of None \<Rightarrow> ''undefined'' | Some h \<Rightarrow> h)
           @ (case contextRoot appSchemeLocation of None \<Rightarrow> ''/'' | Some c \<Rightarrow> if c = [] then ''/'' else c)"
    by (simp add: example_defs)
  have 3: "(truthyStr r \<or> APP_defined exampleEnv)
           \<and> loadConfig exampleEnv (configURL exampleEnv ''org.jitsi.meet:'' (appSchemeLocation\<lparr>room := r\<rparr>)) = Fulfilled exampleDocument
           \<and> (window_config exampleEnv = JUndefined \<or> \<not> strict_eq (window_config exampleEnv) exampleDocument)
           \<and> \<not> localStorage_throws exampleEnv \<and> JSON_stringify exampleEnv exampleDocument = StringifyText exampleText
           \<and> \<not> setItem_throws exampleEnv ''config.js/https://meet.example.com/'' exampleText"
    if "r = Some ''StandUp'' \<or> r = Some ''other''" for r
    using that by (auto simp add: example_defs)
  have 4: "appSchemeLocation\<lparr>room := Some ''StandUp''\<rparr> = appSchemeLocation"
    by (simp add: example_defs)
  from cache_key_format [OF 1 2, of emptyWorld] 3 [of "Some ''StandUp''"] 3 [of "Some ''other''"]
  have "localStorage (snd (loadConfig_private exampleEnv (appSchemeLocation\<lparr>room := Some ''StandUp''\<rparr>) emptyWorld))
     ''config.js/https://meet.example.com/'' = Some exampleText
   \<and> localStorage (snd (loadConfig_private exampleEnv (appSchemeLocation\<lparr>room := Some ''other''\<rparr>) emptyWorld))
     ''config.js/https://meet.example.com/'' = Some exampleText"
    by blast
  then show ?thesis by (simp only: 4)
qed


text \<open>
  In the specification's scenario nothing is stored under \<open>config/\<close> and the base URL;
  the document is under \<open>config.js/\<close> and the base URL.
\<close>

theorem cache_key_counterexample:
  "localStorage (snd (loadConfig_private exampleEnv exampleLocation emptyWorld))
     ''config/https://meet.example.com/'' = None
   \<and> localStorage (snd (loadConfig_private exampleEnv exampleLocation emptyWorld))
     ''config.js/https://meet.example.com/'' = Some exampleText"
  by (simp add: example_defs loadConfig_private_def storeConfig_def storageKey_format
      Let_def)


subsection \<open>The committed configuration\<close>

text \<open>
  Claim C2, as the code has it, for a location whose text \<open>new URL\<close> accepts. When the
  load is fulfilled with a truthy config, the navigation dispatches the location, then
  the merge of the (overridden) config with the profile, which is an object and not
  \<open>undefined\<close>, then the room. When it is fulfilled with no config (the fetch was
  skipped, or the document is falsy), the config that is committed is \<open>undefined\<close>.
  When it is rejected with a truthy error, the location and the failure are dispatched,
  no config is, and the navigation is rejected with the error.
\<close>

theorem committed_config:
  assumes "loadConfig_private e loc (dispatch (ConfigWillLoad loc) w) = (Returns settled, w1)"
    and "newURL e (toString e loc) = Inr url"
  shows "(\<forall>config. settled = Fulfilled config \<and> truthy config \<longrightarrow>
            fst (appNavigateToMandatoryLocation e loc w) = Returns (Fulfilled ())
            \<and> (\<exists>c. c \<noteq> JUndefined
                 \<and> c = mergeConfigWithProfile (nextObject w) (overrideConfig e loc config)
                         (getProfile e (dispatched w @ [ConfigWillLoad loc, SetLocationURL url]))
                 \<and> dispatched (snd (appNavigateToMandatoryLocation e loc w)) =
                     dispatched w @ [ConfigWillLoad loc, SetLocationURL url,
                                     SetConfig c, SetRoom (room loc)]))
     \<and> (\<forall>config. settled = Fulfilled config \<and> \<not> truthy config \<longrightarrow>
            fst (appNavigateToMandatoryLocation e loc w) = Returns (Fulfilled ())
            \<and> dispatched (snd (appNavigateToMandatoryLocation e loc w)) =
                dispatched w @ [ConfigWillLoad loc, SetLocationURL url,
                                SetConfig JUndefined, SetRoom (room loc)])
     \<and> (\<forall>error. settled = Rejected error \<and> truthy error \<longrightarrow>
            fst (appNavigateToMandatoryLocation e loc w) = Returns (Rejected error)
            \<and> dispatched (snd (appNavigateToMandatoryLocation e loc w)) =
                dispatched w @ [ConfigWillLoad loc, SetLocationURL url,
                                LoadConfigError error loc])"
proof (intro conjI allI impI)
  fix config assume a: "settled = Fulfilled config \<and> truthy config"
  then have t: "truthy (overrideConfig e loc config)" by (simp add: truthy_overrideConfig)
  from a assms have n: "appNavigateToMandatoryLocation e loc w =
     (Returns (Fulfilled ()),
      w1\<lparr>dispatched := dispatched w @
           [ConfigWillLoad loc, SetLocationURL url,
            SetConfig (mergeConfigWithProfile (nextObject w) (overrideConfig e loc config)
                         (getProfile e (dispatched w @ [ConfigWillLoad loc, SetLocationURL url]))),
            SetRoom (room loc)],
        nextObject := Suc (nextObject w)\<rparr>)"
    by (simp add: navigate_config)
  show "fst (appNavigateToMandatoryLocation e loc w) = Returns (Fulfilled ())"
    by (simp add: n)
  from mergeConfigWithProfile_object [OF t]
  have "mergeConfigWithProfile (nextObject w) (overrideConfig e loc config)
          (getProfile e (dispatched w @ [ConfigWillLoad loc, SetLocationURL url]))
        \<noteq> JUndefined"
    by (metis jsval.distinct(11))
  then show "\<exists>c. c \<noteq> JUndefined
                 \<and> c = mergeConfigWithProfile (nextObject w) (overrideConfig e loc config)
                         (getProfile e (dispatched w @ [ConfigWillLoad loc, SetLocationURL url]))
                 \<and> dispatched (snd (appNavigateToMandatoryLocation e loc w)) =
                     dispatched w @ [ConfigWillLoad loc, SetLocationURL url,
                                     SetConfig c, SetRoom (room loc)]"
    by (simp add: n)
next
  fix config assume a: "settled = Fulfilled config \<and> \<not> truthy config"
  with assms have n: "appNavigateToMandatoryLocation e loc w =
     (Returns (Fulfilled ()),
      w1\<lparr>dispatched := dispatched w @
           [ConfigWillLoad loc, SetLocationURL url, SetConfig JUndefined,
            SetRoom (room loc)]\<rparr>)"
    by (simp add: navigate_no_config)
  show "fst (appNavigateToMandatoryLocation e loc w) = Returns (Fulfilled ())"
    by (simp add: n)
  show "dispatched (snd (appNavigateToMandatoryLocation e loc w)) =
                dispatched w @ [ConfigWillLoad loc, SetLocationURL url,
                                SetConfig JUndefined, SetRoom (room loc)]"
    by (simp add: n)
next
  fix error assume a: "settled = Rejected error \<and> truthy error"
  with assms have n: "appNavigateToMandatoryLocation e loc w =
     (Returns (Rejected error),
      w1\<lparr>dispatched := dispatched w @
           [ConfigWillLoad loc, SetLocationURL url, LoadConfigError error loc]\<rparr>)"
    by (simp add: navigate_error)
  show "fst (appNavigateToMandatoryLocation e loc w) = Returns (Rejected error)"
    by (simp add: n)
  show "dispatched (snd (appNavigateToMandatoryLocation e loc w)) =
                dispatched w @ [ConfigWillLoad loc, SetLocationURL url,
                                LoadConfigError error loc]"
    by (simp add: n)
qed


text \<open>A fetched document, the welcome page, and a download that fails with \<open>Not Found\<close>.\<close>

theorem committed_config_witness:
  "dispatched (snd (appNavigateToMandatoryLocation exampleEnv exampleLocation emptyWorld)) =
     [ConfigWillLoad exampleLocation, SetLocationURL ''https://meet.example.com/test'',
      SetConfig (JObject 10 [(''startWithAudioMuted'', JBoolean False), (''displayName'', JString ''Ann'')]),
      SetRoom (Some ''test'')]
   \<and> dispatched (snd (appNavigateToMandatoryLocation exampleEnv welcomeLocation emptyWorld)) =
     [ConfigWillLoad welcomeLocation, SetLocationURL ''https://meet.example.com/'',
      SetConfig JUndefined, SetRoom None]
   \<and> fst (appNavigateToMandatoryLocation (offlineEnv (JString ''Not Found'')) exampleLocation emptyWorld)
       = Returns (Rejected (JString ''Not Found''))
   \<and> dispatched (snd (appNavigateToMandatoryLocation (offlineEnv (JString ''Not Found'')) exampleLocation emptyWorld)) =
     [ConfigWillLoad exampleLocation, SetLocationURL ''https://meet.example.com/test'',
      LoadConfigError (JString ''Not Found'') exampleLocation]"
proof -
  have t: "truthy exampleDocument" "\<not> truthy JUndefined" "truthy (JString ''Not Found'')"
    by (simp_all add: example_defs)
  have s: "room exampleLocation = Some ''test''" "room welcomeLocation = None"
    "dispatched emptyWorld = []" "nextObject emptyWorld = 10"
    by (simp_all add: example_defs)
  have m: "mergeConfigWithProfile 10 (overrideConfig exampleEnv exampleLocation exampleDocument)
             (getProfile exampleEnv log)
             = JObject 10 [(''startWithAudioMuted'', JBoolean False), (''displayName'', JString ''Ann'')]"
    for log
    by (simp add: example_defs mergeConfigWithProfile_def copyDataProperties_def)
  from committed_config [OF example_load example_urls(1), of emptyWorld] t(1)
  have r1: "dispatched (snd (appNavigateToMandatoryLocation exampleEnv exampleLocation emptyWorld)) =
     [ConfigWillLoad exampleLocation, SetLocationURL ''https://meet.example.com/test'',
      SetConfig (JObject 10 [(''startWithAudioMuted'', JBoolean False), (''displayName'', JString ''Ann'')]),
      SetRoom (Some ''test'')]"
    by (simp add: s m)
  from committed_config [OF welcome_load example_urls(3), of emptyWorld] t(2)
  have r2: "dispatched (snd (appNavigateToMandatoryLocation exampleEnv welcomeLocation emptyWorld)) =
     [ConfigWillLoad welcomeLocation, SetLocationURL ''https://meet.example.com/'',
      SetConfig JUndefined, SetRoom None]"
    by (simp add: s)
  from committed_config [OF offline_load_empty example_urls(2)] t(3)
  have r3: "fst (appNavigateToMandatoryLocation (offlineEnv (JString ''Not Found'')) exampleLocation emptyWorld)
       = Returns (Rejected (JString ''Not Found''))
   \<and> dispatched (snd (appNavigateToMandatoryLocation (offlineEnv (JString ''Not Found'')) exampleLocation emptyWorld)) =
     [ConfigWillLoad exampleLocation, SetLocationURL ''https://meet.example.com/test'',
      LoadConfigError (JString ''Not Found'') exampleLocation]"
    by (simp add: s)
  from r1 r2 r3 show ?thesis by blast
qed


text \<open>
  On the mobile app's welcome page the load settles without an error and the config that
  is committed is \<open>undefined\<close>. With a port out of range, \<open>new URL\<close> throws: a load that
  failed with \<open>Not Found\<close> ends in a navigation rejected with the \<open>TypeError\<close>, and no
  location has been committed.
\<close>

theorem undefined_config_committed:
  "fst (loadConfig_private exampleEnv welcomeLocation
          (dispatch (ConfigWillLoad welcomeLocation) emptyWorld)) = Returns (Fulfilled JUndefined)
   \<and> fst (appNavigateToMandatoryLocation exampleEnv welcomeLocation emptyWorld) = Returns (Fulfilled ())
   \<and> dispatched (snd (appNavigateToMandatoryLocation exampleEnv welcomeLocation emptyWorld)) =
       [ConfigWillLoad welcomeLocation, SetLocationURL ''https://meet.example.com/'',
        SetConfig JUndefined, SetRoom None]
   \<and> fst (loadConfig_private (offlineEnv (JString ''Not Found'')) (badPortLocation\<lparr>room := Some ''test''\<rparr>)
          (dispatch (ConfigWillLoad (badPortLocation\<lparr>room := Some ''test''\<rparr>)) emptyWorld))
       = Returns (Rejected (JString ''Not Found''))
   \<and> fst (appNavigateToMandatoryLocation (offlineEnv (JString ''Not Found''))
            (badPortLocation\<lparr>room := Some ''test''\<rparr>) emptyWorld)
       = Returns (Rejected exampleTypeError)
   \<and> dispatched (snd (appNavigateToMandatoryLocation (offlineEnv (JString ''Not Found''))
            (badPortLocation\<lparr>room := Some ''test''\<rparr>) emptyWorld))
       = [ConfigWillLoad (badPortLocation\<lparr>room := Some ''test''\<rparr>)]"
proof -
  let ?off = "offlineEnv (JString ''Not Found'')" and ?bad = "badPortLocation\<lparr>room := Some ''test''\<rparr>"
  have n: "appNavigateToMandatoryLocation exampleEnv welcomeLocation emptyWorld =
     (Returns (Fulfilled ()),
      emptyWorld\<lparr>dispatched :=
        [ConfigWillLoad welcomeLocation, SetLocationURL ''https://meet.example.com/'',
         SetConfig JUndefined, SetRoom (room welcomeLocation)]\<rparr>)"
    using navigate_no_config [OF welcome_load _ example_urls(3), of emptyWorld]
    by (simp add: dispatch_def emptyWorld_def)
  have s: "room welcomeLocation = None" "dispatched emptyWorld = []"
    by (simp_all add: example_defs)
  have b: "fst (loadConfig_private ?off ?bad (dispatch (ConfigWillLoad ?bad) emptyWorld))
             = Returns (Rejected (JString ''Not Found''))"
    by (simp add: loadConfig_private_def restoreConfig_def Let_def example_defs dispatch_def)
  then have "loadConfig_private ?off ?bad (dispatch (ConfigWillLoad ?bad) emptyWorld)
               = (Returns (Rejected (JString ''Not Found'')),
                  snd (loadConfig_private ?off ?bad (dispatch (ConfigWillLoad ?bad) emptyWorld)))"
    by (metis prod.collapse)
  from navigate_no_url [OF this example_urls(5)]
  have c: "fst (appNavigateToMandatoryLocation ?off ?bad emptyWorld) = Returns (Rejected exampleTypeError)"
    "dispatched (snd (appNavigateToMandatoryLocation ?off ?bad emptyWorld)) = [ConfigWillLoad ?bad]"
    by (simp_all add: s)
  show ?thesis
    by (simp add: welcome_load n s b c)
qed


subsection \<open>Falling back to the cache\<close>

text \<open>
  Claim C3. When the fetch fails with an error and the store (which can be read, and
  whose \<open>JSON.parse\<close> rejects the empty text, as JSON does) holds under the deployment's
  key a text that parses, \<open>_loadConfig\<close> is fulfilled with the parsed value, not rejected
  with the error, and leaves the store as it is.
\<close>

theorem cache_fallback:
  assumes "truthyStr (room loc) \<or> APP_defined e" and "protocol loc = Some p"
    and "loadConfig e (configURL e p loc) = Rejected E"
    and "\<not> localStorage_throws e"
    and "localStorage w (storageKey e p loc) = Some t"
    and "JSON_parse e t = Some v"
    and "JSON_parse e [] = None"
  shows "fst (loadConfig_private e loc w) = Returns (Fulfilled v)
     \<and> localStorage (snd (loadConfig_private e loc w)) = localStorage w"
proof -
  from assms(6,7) have t: "t \<noteq> []" by auto
  have "loadConfig_private e loc w =
          (Returns (Fulfilled v), w\<lparr>requested := requested w @ [configURL e p loc]\<rparr>)"
    using assms(1-3) restoreConfig_cached [OF assms(4) _ t assms(6)] assms(5)
    by (simp add: loadConfig_private_rejected)
  then show ?thesis by simp
qed

theorem cache_fallback_witness:
  "fst (loadConfig_private (offlineEnv (JString ''Not Found'')) exampleLocation (cachedWorld exampleText))
     = Returns (Fulfilled (JObject 7 [(''startWithAudioMuted'', JBoolean False)]))
   \<and> localStorage (snd (loadConfig_private (offlineEnv (JString ''Not Found'')) exampleLocation
                          (cachedWorld exampleText)))
       = localStorage (cachedWorld exampleText)"
proof -
  let ?e = "offlineEnv (JString ''Not Found'')"
  have 1: "truthyStr (room exampleLocation) \<or> APP_defined ?e" by (simp add: example_defs)
  have 2: "protocol exampleLocation = Some ''https:''" by (simp add: example_defs)
  have 3: "loadConfig ?e (configURL ?e ''https:'' exampleLocation) = Rejected (JString ''Not Found'')"
    by (simp add: example_defs)
  have 4: "\<not> localStorage_throws ?e" by (simp add: example_defs)
  have 5: "localStorage (cachedWorld exampleText) (storageKey ?e ''https:'' exampleLocation) = Some exampleText"
    by (simp add: example_defs storageKey_format)
  have 6: "JSON_parse ?e exampleText = Some (JObject 7 [(''startWithAudioMuted'', JBoolean False)])"
    by (simp add: example_defs)
  have 7: "JSON_parse ?e [] = None" by (simp add: example_defs)
  show ?thesis using cache_fallback [OF 1 2 3 4 5 6 7] by simp
qed


text \<open>
  Claim C4, as the code has it. When the fetch fails with an error and the store holds
  under the deployment's key a text that is not empty and does not parse, the entry is
  removed and \<open>_loadConfig\<close> is rejected with that error.
\<close>

theorem corrupt_cache_entry_removed:
  assumes "truthyStr (room loc) \<or> APP_defined e" and "protocol loc = Some p"
    and "loadConfig e (configURL e p loc) = Rejected E"
    and "\<not> localStorage_throws e"
    and "localStorage w (storageKey e p loc) = Some t"
    and "t \<noteq> []"
    and "JSON_parse e t = None"
  shows "loadConfig_private e loc w =
           (Returns (Rejected E),
            w\<lparr>requested := requested w @ [configURL e p loc],
              localStorage := (localStorage w)(storageKey e p loc := None)\<rparr>)"
  using assms(1-3) restoreConfig_corrupt [OF assms(4) _ assms(6,7)] assms(5)
  by (simp add: loadConfig_private_rejected)

theorem corrupt_cache_entry_removed_witness:
  "fst (loadConfig_private (offlineEnv (JString ''Not Found'')) exampleLocation (cachedWorld ''undefined''))
     = Returns (Rejected (JString ''Not Found''))
   \<and> localStorage (snd (loadConfig_private (offlineEnv (JString ''Not Found'')) exampleLocation
                          (cachedWorld ''undefined'')))
        ''config.js/https://meet.example.com/'' = None"
proof -
  let ?e = "offlineEnv (JString ''Not Found'')"
  have 1: "truthyStr (room exampleLocation) \<or> APP_defined ?e" by (simp add: example_defs)
  have 2: "protocol exampleLocation = Some ''https:''" by (simp add: example_defs)
  have 3: "loadConfig ?e (configURL ?e ''https:'' exampleLocation) = Rejected (JString ''Not Found'')"
    by (simp add: example_defs)
  have 4: "\<not> localStorage_throws ?e" by (simp add: example_defs)
  have 5: "localStorage (cachedWorld ''undefined'') (storageKey ?e ''https:'' exampleLocation) = Some ''undefined''"
    by (simp add: example_defs storageKey_format)
  have 6: "''undefined'' \<noteq> []" by simp
  have 7: "JSON_parse ?e ''undefined'' = None" by (simp add: example_defs)
  have k: "storageKey ?e ''https:'' exampleLocation = ''config.js/https://meet.example.com/''"
    by (simp add: example_defs storageKey_format)
  show ?thesis using corrupt_cache_entry_removed [OF 1 2 3 4 5 6 7] by (simp add: k)
qed


text \<open>
  An empty entry does not parse either, but \<open>if (config)\<close> takes it for no entry: it
  stays in the store.
\<close>

theorem empty_cache_entry_kept:
  "localStorage (cachedWorld []) ''config.js/https://meet.example.com/'' = Some []
   \<and> JSON_parse (offlineEnv (JString ''Not Found'')) [] = None
   \<and> fst (loadConfig_private (offlineEnv (JString ''Not Found'')) exampleLocation (cachedWorld []))
       = Returns (Rejected (JString ''Not Found''))
   \<and> localStorage (snd (loadConfig_private (offlineEnv (JString ''Not Found'')) exampleLocation
                          (cachedWorld [])))
        ''config.js/https://meet.example.com/'' = Some []"
  by (simp add: example_defs loadConfig_private_def restoreConfig_def storageKey_format
      Let_def)


subsection \<open>Caching the fetched document\<close>

text \<open>
  Claim C9, as the code has it. When the fetch succeeds with a document that is not the
  very object in \<open>window.config\<close>, the store can be read, \<open>JSON.stringify\<close> gives a text
  and \<open>setItem\<close> takes it, the entry under the deployment's key is that text. If the
  text parses to a value deep-equal to the document, a later load of the same deployment
  (any room) whose fetch fails is fulfilled with a value deep-equal to the document.
\<close>

theorem cache_round_trip:
  assumes "truthyStr (room loc) \<or> APP_defined e" and "protocol loc = Some p"
    and "loadConfig e (configURL e p loc) = Fulfilled D"
    and "window_config e = JUndefined \<or> \<not> strict_eq (window_config e) D"
    and "\<not> localStorage_throws e"
    and "JSON_stringify e D = StringifyText t"
    and "\<not> setItem_throws e (storageKey e p loc) t"
  shows "localStorage (snd (loadConfig_private e loc w)) (storageKey e p loc) = Some t
     \<and> (\<forall>D' E r.
           JSON_parse e t = Some D' \<and> deepEqual D' D \<and> JSON_parse e [] = None
           \<and> (truthyStr r \<or> APP_defined e) \<longrightarrow>
           (\<exists>v. fst (loadConfig_private (e\<lparr>loadConfig := (\<lambda>url. Rejected E)\<rparr>) (loc\<lparr>room := r\<rparr>)
                        (snd (loadConfig_private e loc w))) = Returns (Fulfilled v)
                \<and> deepEqual v D))"
proof -
  let ?w = "snd (loadConfig_private e loc w)"
  have w: "?w = (w\<lparr>requested := requested w @ [configURL e p loc]\<rparr>)
                  \<lparr>localStorage := (localStorage w)(storageKey e p loc \<mapsto> t)\<rparr>"
    using assms(1-3) storeConfig_written [OF assms(4-7)]
    by (simp add: loadConfig_private_fulfilled)
  then have s: "localStorage ?w (storageKey e p loc) = Some t" by simp
  have "\<exists>v. fst (loadConfig_private (e\<lparr>loadConfig := (\<lambda>url. Rejected E)\<rparr>) (loc\<lparr>room := r\<rparr>) ?w)
               = Returns (Fulfilled v) \<and> deepEqual v D"
    if a: "JSON_parse e t = Some D'" "deepEqual D' D" "JSON_parse e [] = None"
      "truthyStr r \<or> APP_defined e" for D' E r
  proof -
    let ?e = "e\<lparr>loadConfig := (\<lambda>url. Rejected E)\<rparr>" and ?loc = "loc\<lparr>room := r\<rparr>"
    from a(1,3) have t: "t \<noteq> []" by auto
    have "restoreConfig ?e (storageKey ?e p ?loc) E w' = (Fulfilled D', w')"
      if "localStorage w' = localStorage ?w" for w'
      by (rule restoreConfig_cached [where t = t])
        (use assms(5) a(1) s t that in \<open>simp_all add: storageKey_room storageKey_loadConfig\<close>)
    then have "fst (loadConfig_private ?e ?loc ?w) = Returns (Fulfilled D')"
      using a(4) assms(2) by (simp add: loadConfig_private_rejected)
    with a(2) show ?thesis by blast
  qed
  with s show ?thesis by blast
qed

theorem cache_round_trip_witness:
  "localStorage (snd (loadConfig_private exampleEnv exampleLocation emptyWorld))
     ''config.js/https://meet.example.com/'' = Some exampleText
   \<and> (\<exists>v. fst (loadConfig_private (exampleEnv\<lparr>loadConfig := (\<lambda>url. Rejected (JString ''Not Found''))\<rparr>)
                  (exampleLocation\<lparr>room := Some ''other''\<rparr>)
                  (snd (loadConfig_private exampleEnv exampleLocation emptyWorld)))
             = Returns (Fulfilled v)
          \<and> deepEqual v exampleDocument)"
proof -
  have 1: "truthyStr (room exampleLocation) \<or> APP_defined exampleEnv" by (simp add: example_defs)
  have 2: "protocol exampleLocation = Some ''https:''" by (simp add: example_defs)
  have 3: "loadConfig exampleEnv (configURL exampleEnv ''https:'' exampleLocation) = Fulfilled exampleDocument"
    by (simp add: example_defs)
  have 4: "window_config exampleEnv = JUndefined
             \<or> \<not> strict_eq (window_config exampleEnv) exampleDocument"
    by (simp add: example_defs)
  have 5: "\<not> localStorage_throws exampleEnv" by (simp add: example_defs)
  have 6: "JSON_stringify exampleEnv exampleDocument = StringifyText exampleText"
    by (simp add: example_defs)
  have 7: "\<not> setItem_throws exampleEnv (storageKey exampleEnv ''https:'' exampleLocation) exampleText"
    by (simp add: example_defs)
  have 8: "JSON_parse exampleEnv exampleText = Some (JObject 7 [(''startWithAudioMuted'', JBoolean False)])
           \<and> deepEqual (JObject 7 [(''startWithAudioMuted'', JBoolean False)]) exampleDocument
           \<and> JSON_parse exampleEnv [] = None
           \<and> (truthyStr (Some ''other'') \<or> APP_defined exampleEnv)"
    by (simp add: example_defs)
  from cache_round_trip [OF 1 2 3 4 5 6 7, of emptyWorld] 8 show ?thesis
    unfolding example_key [OF example_lowercase(1)] by blast
qed


text \<open>
  In the web app \<open>loadConfig\<close> is fulfilled with \<open>window.config\<close> itself, and nothing is
  cached.
\<close>

theorem window_config_not_cached:
  "loadConfig webEnv (configURL webEnv ''https:'' exampleLocation) = Fulfilled exampleDocument
   \<and> fst (loadConfig_private webEnv exampleLocation emptyWorld) = Returns (Fulfilled exampleDocument)
   \<and> localStorage (snd (loadConfig_private webEnv exampleLocation emptyWorld))
        ''config.js/https://meet.example.com/'' = None"
  by (simp add: example_defs loadConfig_private_def storeConfig_def Let_def)


subsection \<open>The welcome page\<close>

text \<open>
  Claim C7, as the code has it. For a location with no room (undefined or empty) outside
  the full application, \<open>_loadConfig\<close> is fulfilled with \<open>undefined\<close> at once and changes
  nothing, and the navigation requests no URL; when \<open>new URL\<close> accepts the text of the
  location, the navigation dispatches the location, an \<open>undefined\<close> config and the room.
\<close>

theorem welcome_page_skips_fetch:
  assumes "\<not> truthyStr (room loc)" and "\<not> APP_defined e"
  shows "loadConfig_private e loc w = (Returns (Fulfilled JUndefined), w)
     \<and> requested (snd (appNavigateToMandatoryLocation e loc w)) = requested w
     \<and> (\<forall>url. newURL e (toString e loc) = Inr url \<longrightarrow>
           appNavigateToMandatoryLocation e loc w =
             (Returns (Fulfilled ()),
              w\<lparr>dispatched := dispatched w @
                   [ConfigWillLoad loc, SetLocationURL url, SetConfig JUndefined,
                    SetRoom (room loc)]\<rparr>))"
proof -
  have l: "loadConfig_private e loc w' = (Returns (Fulfilled JUndefined), w')" for w'
    using assms by (rule loadConfig_private_skipped)
  have n: "appNavigateToMandatoryLocation e loc w =
     (Returns (Fulfilled ()),
      w\<lparr>dispatched := dispatched w @
           [ConfigWillLoad loc, SetLocationURL url, SetConfig JUndefined,
            SetRoom (room loc)]\<rparr>)"
    if "newURL e (toString e loc) = Inr url" for url
    using navigate_no_config [OF l _ that, of w] by (simp add: dispatch_def)
  have r: "requested (snd (appNavigateToMandatoryLocation e loc w)) = requested w"
  proof (cases "newURL e (toString e loc)")
    case (Inl thrown)
    from navigate_no_url [OF l Inl, of w] show ?thesis by (simp add: dispatch_def)
  next
    case (Inr url)
    from n [OF Inr] show ?thesis by simp
  qed
  show ?thesis using l n r by blast
qed

theorem welcome_page_skips_fetch_witness:
  "loadConfig_private exampleEnv welcomeLocation emptyWorld = (Returns (Fulfilled JUndefined), emptyWorld)
   \<and> appNavigateToMandatoryLocation exampleEnv welcomeLocation emptyWorld =
     (Returns (Fulfilled ()),
      emptyWorld\<lparr>dispatched :=
        [ConfigWillLoad welcomeLocation, SetLocationURL ''https://meet.example.com/'',
         SetConfig JUndefined, SetRoom None]\<rparr>)
   \<and> requested (snd (appNavigateToMandatoryLocation exampleEnv welcomeLocation emptyWorld)) = []"
proof -
  have r: "\<not> truthyStr (room welcomeLocation)" by (simp add: example_defs)
  have a: "\<not> APP_defined exampleEnv" by (simp add: example_defs)
  have u: "newURL exampleEnv (toString exampleEnv welcomeLocation) = Inr ''https://meet.example.com/''"
    by (simp add: example_defs)
  have s: "room welcomeLocation = None" "dispatched emptyWorld = []" "requested emptyWorld = []"
    by (simp_all add: example_defs)
  from welcome_page_skips_fetch [OF r a, of emptyWorld] u show ?thesis
    by (simp add: s)
qed


text \<open>
  A welcome page whose port is out of range: \<open>new URL\<close> throws, the navigation is
  rejected with the \<open>TypeError\<close> and the location is not committed.
\<close>

theorem location_not_committed_without_url:
  "\<not> truthyStr (room badPortLocation) \<and> \<not> APP_defined exampleEnv
   \<and> toString exampleEnv badPortLocation = ''https://meet.example.com:99999/''
   \<and> appNavigateToMandatoryLocation exampleEnv badPortLocation emptyWorld =
       (Returns (Rejected exampleTypeError),
        emptyWorld\<lparr>dispatched := [ConfigWillLoad badPortLocation]\<rparr>)"
proof -
  have l: "loadConfig_private exampleEnv badPortLocation w = (Returns (Fulfilled JUndefined), w)" for w
    by (rule loadConfig_private_skipped) (simp_all add: example_defs)
  have u: "newURL exampleEnv (toString exampleEnv badPortLocation) = Inl exampleTypeError"
    by (simp add: example_defs)
  have s: "\<not> truthyStr (room badPortLocation)" "\<not> APP_defined exampleEnv"
    "toString exampleEnv badPortLocation = ''https://meet.example.com:99999/''"
    "dispatched emptyWorld = []"
    by (simp_all add: example_defs)
  from navigate_no_url [OF l u, of emptyWorld] show ?thesis
    by (simp add: s dispatch_def)
qed


subsection \<open>A load that fails\<close>

text \<open>
  For a location whose text \<open>new URL\<close> accepts. With a truthy error (the one the fetch
  was rejected with, which no cache entry made up for) the navigation dispatches the
  location and the failure with the error and the location, and is rejected with the
  error. After a fulfilled load the room is the last thing dispatched, after the location
  and the config; after a truthy error it is not dispatched.
\<close>

lemma uncached_failure_reported:
  assumes "truthyStr (room loc) \<or> APP_defined e" and "protocol loc = Some p"
    and "loadConfig e (configURL e p loc) = Rejected E"
    and "localStorage_throws e \<or> localStorage w (storageKey e p loc) = None
           \<or> localStorage w (storageKey e p loc) = Some []"
    and "truthy E"
    and "newURL e (toString e loc) = Inr url"
  shows "appNavigateToMandatoryLocation e loc w =
           (Returns (Rejected E),
            w\<lparr>dispatched := dispatched w @
                 [ConfigWillLoad loc, SetLocationURL url, LoadConfigError E loc],
              requested := requested w @ [configURL e p loc]\<rparr>)"
proof -
  let ?w0 = "dispatch (ConfigWillLoad loc) w"
  have "restoreConfig e (storageKey e p loc) E (?w0\<lparr>requested := requested ?w0 @ [configURL e p loc]\<rparr>)
          = (Rejected E, ?w0\<lparr>requested := requested ?w0 @ [configURL e p loc]\<rparr>)"
    by (rule restoreConfig_nothing) (use assms(4) in \<open>simp add: dispatch_def\<close>)
  then have "loadConfig_private e loc ?w0 =
               (Returns (Rejected E), ?w0\<lparr>requested := requested ?w0 @ [configURL e p loc]\<rparr>)"
    using assms(1-3) by (simp add: loadConfig_private_rejected)
  from navigate_error [OF this assms(5,6)] show ?thesis
    by (simp add: dispatch_def)
qed

lemma load_failure_reported:
  assumes "loadConfig_private e loc (dispatch (ConfigWillLoad loc) w) = (Returns (Rejected E), w1)"
    and "truthy E"
    and "newURL e (toString e loc) = Inr url"
  shows "fst (appNavigateToMandatoryLocation e loc w) = Returns (Rejected E)
     \<and> dispatched (snd (appNavigateToMandatoryLocation e loc w)) =
         dispatched w @ [ConfigWillLoad loc, SetLocationURL url, LoadConfigError E loc]
     \<and> (\<exists>p. protocol loc = Some p \<and> loadConfig e (configURL e p loc) = Rejected E)"
proof -
  from assms(1)
  have "fst (loadConfig_private e loc (dispatch (ConfigWillLoad loc) w)) = Returns (Rejected E)"
    by simp
  then have "\<exists>p. protocol loc = Some p \<and> loadConfig e (configURL e p loc) = Rejected E"
    by (rule loadConfig_private_rejects)
  then show ?thesis
    using navigate_error [OF assms] by simp
qed

lemma room_committed_last:
  assumes "loadConfig_private e loc (dispatch (ConfigWillLoad loc) w) = (Returns (Fulfilled config), w1)"
    and "newURL e (toString e loc) = Inr url"
  shows "\<exists>c. dispatched (snd (appNavigateToMandatoryLocation e loc w)) =
               dispatched w @ [ConfigWillLoad loc, SetLocationURL url, SetConfig c,
                               SetRoom (room loc)]"
proof (cases "truthy config")
  case True
  from navigate_config [OF assms(1) True assms(2)] show ?thesis by simp
next
  case False
  from navigate_no_config [OF assms(1) False assms(2)] show ?thesis by simp
qed

lemma room_not_committed_on_error:
  assumes "loadConfig_private e loc (dispatch (ConfigWillLoad loc) w) = (Returns (Rejected error), w1)"
    and "truthy error"
    and "newURL e (toString e loc) = Inr url"
  shows "dispatched (snd (appNavigateToMandatoryLocation e loc w)) =
           dispatched w @ [ConfigWillLoad loc, SetLocationURL url,
                           LoadConfigError error loc]"
  using navigate_error [OF assms] by simp

lemma room_committed_after_load:
  assumes "loadConfig_private e loc (dispatch (ConfigWillLoad loc) w) = (Returns settled, w1)"
    and "newURL e (toString e loc) = Inr url"
  shows "(\<forall>config. settled = Fulfilled config \<longrightarrow>
            (\<exists>c. dispatched (snd (appNavigateToMandatoryLocation e loc w)) =
                   dispatched w @ [ConfigWillLoad loc, SetLocationURL url,
                                   SetConfig c, SetRoom (room loc)]))
     \<and> (\<forall>error. settled = Rejected error \<and> truthy error \<longrightarrow>
            dispatched (snd (appNavigateToMandatoryLocation e loc w)) =
              dispatched w @ [ConfigWillLoad loc, SetLocationURL url,
                              LoadConfigError error loc])"
  using assms room_committed_last [of e loc w _ w1 url]
    room_not_committed_on_error [of e loc w _ w1 url]
  by blast


text \<open>
  Claim C5 says that every load that settles with an error \<open>E\<close> (no cache rescue) has
  the location committed, a failure signal with \<open>E\<close> and the location emitted, and the
  navigation rejected with \<open>E\<close>. At a fetch rejected with the empty string (the error is
  documented as \<open>{string|undefined}\<close>) and an empty cache, \<open>_loadConfig\<close> is rejected
  with it, and yet the navigation is fulfilled and dispatches an \<open>undefined\<close> config, the
  room and no failure: \<open>if (error)\<close> does not see the error.
\<close>

theorem empty_error_not_reported:
  "fst (loadConfig_private (offlineEnv (JString [])) exampleLocation
          (dispatch (ConfigWillLoad exampleLocation) emptyWorld)) = Returns (Rejected (JString []))
   \<and> appNavigateToMandatoryLocation (offlineEnv (JString [])) exampleLocation emptyWorld =
       (Returns (Fulfilled ()),
        emptyWorld\<lparr>dispatched :=
            [ConfigWillLoad exampleLocation, SetLocationURL ''https://meet.example.com/test'',
             SetConfig JUndefined, SetRoom (Some ''test'')],
          requested := [''https://meet.example.com/config.js?room=test'']\<rparr>)"
proof -
  have f: "\<not> truthy (JString [])" by simp
  show ?thesis
    using navigate_falsy_error [OF offline_load_empty f example_urls(2)]
    by (simp add: offline_load_empty) (simp add: example_defs)
qed


text \<open>
  Claim C10 says that the room is committed exactly when the load settles successfully,
  and never when it errors without cache rescue. At the same rejection with the empty
  string and an empty cache, the load has failed and the room is the last thing
  dispatched.
\<close>

theorem room_committed_after_empty_error:
  "fst (loadConfig_private (offlineEnv (JString [])) exampleLocation
          (dispatch (ConfigWillLoad exampleLocation) emptyWorld)) = Returns (Rejected (JString []))
   \<and> localStorage (dispatch (ConfigWillLoad exampleLocation) emptyWorld) = Map.empty
   \<and> last (dispatched (snd (appNavigateToMandatoryLocation (offlineEnv (JString [])) exampleLocation
                             emptyWorld))) = SetRoom (Some ''test'')"
proof -
  have f: "\<not> truthy (JString [])" by simp
  show ?thesis
    using navigate_falsy_error [OF offline_load_empty f example_urls(2)]
    by (simp add: offline_load_empty) (simp add: example_defs dispatch_def)
qed


end
